theory Spec2Isabelle
  imports Complex_Main
begin

section \<open>The error figures printed by the Sobol' indices notebook\<close>

text \<open>
  The notebook \<^verbatim>\<open>doc/examples/sensitivity_sobol.ipynb\<close> estimates the Sobol' indices of
  the Ishigami function three times (directly, through a kriging surrogate, through the
  otsklearn kriging) and prints, after each estimate, a line labelled
  \<^verbatim>\<open>Relative error\<close>:
  \<^verbatim>\<open>
  true_sobol = [[0.314, 0.442, 0.], [0.558, 0.442, 0.244]]  # [first, total]
  ...
  first_order = sensitivityAnalysis.getFirstOrderIndices()
  print(f"First order Sobol' indices: {first_order}\n"
        f"Relative error: {abs(np.array(first_order) - true_sobol[0]) * 100}%")
  total_order = sensitivityAnalysis.getTotalOrderIndices()
  print(f"Total order Sobol' indices: {total_order}\n"
        f"Relative error: {abs(np.array(total_order) - true_sobol[1]) * 100}%")
  \<close>
  The sampling experiment, the estimator and the surrogate are calls into libraries; what
  the notebook itself computes is this expression. Its arithmetic is modelled on the
  reals: the rounding of the 64-bit floats is left out, and the figures stored in the
  notebook's output cells are compared with the model to the precision they are printed
  with.
\<close>

subsection \<open>One-dimensional arrays\<close>

text \<open>
  An array of shape \<open>(n,)\<close> is a list of \<open>n\<close> reals. Subtracting two of them follows
  numpy's broadcasting: equal shapes are subtracted element by element, a shape \<open>(1,)\<close>
  operand is stretched to the other's shape, and any other pair of shapes raises
  \<^verbatim>\<open>ValueError: operands could not be broadcast together\<close>.
\<close>

datatype np_error = ValueError

definition np_subtract :: "real list \<Rightarrow> real list \<Rightarrow> np_error + real list" where
  "np_subtract xs ys =
     (if length xs = length ys then Inr (map2 (\<lambda>x y. x - y) xs ys)
      else if length ys = 1 then Inr (map (\<lambda>x. x - hd ys) xs)
      else if length xs = 1 then Inr (map (\<lambda>y. hd xs - y) ys)
      else Inl ValueError)"

text \<open>\<^verbatim>\<open>abs(a)\<close> of an array is the array of absolute values.\<close>

definition np_absolute :: "real list \<Rightarrow> real list" where
  "np_absolute xs = map (\<lambda>x. \<bar>x\<bar>) xs"

text \<open>\<^verbatim>\<open>a * c\<close> with a scalar \<open>c\<close> multiplies every element.\<close>

definition np_multiply :: "real list \<Rightarrow> real \<Rightarrow> real list" where
  "np_multiply xs c = map (\<lambda>x. x * c) xs"

subsection \<open>The notebook's constants and its printed expression\<close>

definition dimension :: nat where
  "dimension = 3"

text \<open>The analytical indices: the first-order ones, then the total-order ones.\<close>

definition true_sobol :: "real list list" where
  "true_sobol = [[0.314, 0.442, 0], [0.558, 0.442, 0.244]]"

text \<open>
  \<^verbatim>\<open>abs(np.array(estimate) - reference) * 100\<close>, the value printed after the label
  \<^verbatim>\<open>Relative error\<close>. A shape error of the subtraction ends the evaluation.
\<close>

definition relative_error :: "real list \<Rightarrow> real list \<Rightarrow> np_error + real list" where
  "relative_error estimate reference =
     (case np_subtract estimate reference of
        Inl e \<Rightarrow> Inl e
      | Inr difference \<Rightarrow> Inr (np_multiply (np_absolute difference) 100))"

text \<open>The two lines of each printing cell: against \<^verbatim>\<open>true_sobol[0]\<close> and \<^verbatim>\<open>true_sobol[1]\<close>.\<close>

definition first_order_relative_error :: "real list \<Rightarrow> np_error + real list" where
  "first_order_relative_error first_order = relative_error first_order (true_sobol ! 0)"

definition total_order_relative_error :: "real list \<Rightarrow> np_error + real list" where
  "total_order_relative_error total_order = relative_error total_order (true_sobol ! 1)"

text \<open>
  For comparison only, the quantity the label suggests and the notebook does not compute:
  the difference divided by the reference value, in percent.
\<close>

definition difference_over_true_value :: "real \<Rightarrow> real \<Rightarrow> real" where
  "difference_over_true_value estimate reference =
     \<bar>estimate - reference\<bar> / \<bar>reference\<bar> * 100"

subsection \<open>The figures stored in the notebook's output cells\<close>

text \<open>
  Each printing cell keeps its output: the estimated indices (six significant digits) and
  the printed error line (eight decimals). Cell 7 estimates on the model itself, cell 12
  on the kriging surrogate, cell 15 on the otsklearn kriging.
\<close>

definition cell7_first_order :: "real list" where
  "cell7_first_order = [0.302751, 0.460825, 0.00669407]"

definition cell7_first_order_printed :: "real list" where
  "cell7_first_order_printed = [1.12489872, 1.88252502, 0.66940742]"

definition cell7_total_order :: "real list" where
  "cell7_total_order = [0.57499, 0.427147, 0.256687]"

definition cell7_total_order_printed :: "real list" where
  "cell7_total_order_printed = [1.69897217, 1.48529071, 1.26868602]"

definition cell12_first_order :: "real list" where
  "cell12_first_order = [0.312765, 0.472573, 0.0070339]"

definition cell12_first_order_printed :: "real list" where
  "cell12_first_order_printed = [0.1235497, 3.05730132, 0.70338973]"

definition cell12_total_order :: "real list" where
  "cell12_total_order = [0.562337, 0.447125, 0.237793]"

definition cell12_total_order_printed :: "real list" where
  "cell12_total_order_printed = [0.43372069, 0.51250457, 0.62068279]"

definition cell15_first_order :: "real list" where
  "cell15_first_order = [0.303545, 0.459592, 0.00691174]"

definition cell15_first_order_printed :: "real list" where
  "cell15_first_order_printed = [1.04549598, 1.75916887, 0.69117411]"

definition cell15_total_order :: "real list" where
  "cell15_total_order = [0.577597, 0.426664, 0.257912]"

definition cell15_total_order_printed :: "real list" where
  "cell15_total_order_printed = [1.95973662, 1.53359806, 1.3912165]"

text \<open>
  Two arrays agree to the printed precision when they have the same shape and differ by
  less than \<open>5 \<sqdot> 10\<^sup>-\<^sup>5\<close> in every place: the estimates are printed with six digits, so
  a recomputed error (a hundred times a difference) is off by at most that much.
\<close>

fun agree_as_printed :: "real list \<Rightarrow> real list \<Rightarrow> bool" where
  "agree_as_printed [] [] = True"
| "agree_as_printed (x # xs) (y # ys) = (\<bar>x - y\<bar> < 5 / 100000 \<and> agree_as_printed xs ys)"
| "agree_as_printed _ _ = False"

text \<open>A computed error line reproduces a stored one when it is an array that agrees with it.\<close>

definition reproduces :: "np_error + real list \<Rightarrow> real list \<Rightarrow> bool" where
  "reproduces computed printed =
     (case computed of Inl e \<Rightarrow> False | Inr errors \<Rightarrow> agree_as_printed errors printed)"

text \<open>An array of estimates is within a tolerance of the references, place by place.\<close>

definition within_tolerance :: "real \<Rightarrow> real list \<Rightarrow> real list \<Rightarrow> bool" where
  "within_tolerance tol estimate reference =
     list_all2 (\<lambda>e t. \<bar>e - t\<bar> \<le> tol) estimate reference"

section \<open>Properties\<close>

subsection \<open>The array expression\<close>

lemma np_subtract_same_shape:
  "length xs = length ys \<Longrightarrow> np_subtract xs ys = Inr (map2 (\<lambda>x y. x - y) xs ys)"
  by (simp add: np_subtract_def)

lemma relative_error_same_shape:
  assumes "length estimate = length reference"
  shows "relative_error estimate reference =
           Inr (map2 (\<lambda>e t. \<bar>e - t\<bar> * 100) estimate reference)"
  using assms
  by (simp add: relative_error_def np_subtract_same_shape np_multiply_def np_absolute_def
      map_zip_map2 split_def)

text \<open>Outside equal shapes the expression broadcasts a one-element operand or raises.\<close>

lemma relative_error_broadcast_reference:
  assumes "length estimate \<noteq> 1"
  shows "relative_error estimate [t] = Inr (map (\<lambda>e. \<bar>e - t\<bar> * 100) estimate)"
  using assms
  by (simp add: relative_error_def np_subtract_def np_multiply_def np_absolute_def)

lemma relative_error_broadcast_estimate:
  assumes "length reference \<noteq> 1"
  shows "relative_error [e] reference = Inr (map (\<lambda>t. \<bar>e - t\<bar> * 100) reference)"
  using assms
  by (simp add: relative_error_def np_subtract_def np_multiply_def np_absolute_def)

lemma relative_error_shape_mismatch:
  assumes "length estimate \<noteq> length reference"
    and "length estimate \<noteq> 1" and "length reference \<noteq> 1"
  shows "relative_error estimate reference = Inl ValueError"
  using assms by (simp add: relative_error_def np_subtract_def)

subsection \<open>The reference values\<close>

lemma true_sobol_rows:
  "true_sobol ! 0 = [0.314, 0.442, 0]"
  "true_sobol ! 1 = [0.558, 0.442, 0.244]"
  "true_sobol ! Suc 0 = [0.558, 0.442, 0.244]"
  by (simp_all add: true_sobol_def)

lemma below_dimension: "i < dimension \<Longrightarrow> i = 0 \<or> i = 1 \<or> i = 2"
  by (auto simp: dimension_def)

text \<open>Every reference value is either zero (the first-order index of \<open>X3\<close>) or strictly
  between zero and one.\<close>

lemma true_sobol_first_range:
  assumes "i < dimension" and "true_sobol ! 0 ! i \<noteq> 0"
  shows "0 < true_sobol ! 0 ! i \<and> true_sobol ! 0 ! i < 1"
  using below_dimension [OF assms(1)] assms(2) by (auto simp: true_sobol_rows)

lemma true_sobol_total_range:
  assumes "i < dimension"
  shows "0 < true_sobol ! 1 ! i \<and> true_sobol ! 1 ! i < 1"
  using below_dimension [OF assms] by (auto simp: true_sobol_rows)

text \<open>
  Against a reference strictly between zero and one, a hundred times the absolute
  difference is strictly less than the difference divided by the reference, in percent.
\<close>

lemma scaled_difference_understates:
  fixes e t :: real
  assumes "e \<noteq> t" and "0 < t" and "t < 1"
  shows "\<bar>e - t\<bar> * 100 < difference_over_true_value e t"
  using assms by (simp add: difference_over_true_value_def field_simps)

subsection \<open>The stored runs\<close>

lemmas stored_cells =
  cell7_first_order_def cell7_first_order_printed_def
  cell7_total_order_def cell7_total_order_printed_def
  cell12_first_order_def cell12_first_order_printed_def
  cell12_total_order_def cell12_total_order_printed_def
  cell15_first_order_def cell15_first_order_printed_def
  cell15_total_order_def cell15_total_order_printed_def

text \<open>
  The model, run on the estimates stored in the three printing cells, gives the eighteen
  error figures stored beside them, to the precision of the print.
\<close>

lemma stored_error_lines_reproduced:
  "reproduces (first_order_relative_error cell7_first_order) cell7_first_order_printed"
  "reproduces (total_order_relative_error cell7_total_order) cell7_total_order_printed"
  "reproduces (first_order_relative_error cell12_first_order) cell12_first_order_printed"
  "reproduces (total_order_relative_error cell12_total_order) cell12_total_order_printed"
  "reproduces (first_order_relative_error cell15_first_order) cell15_first_order_printed"
  "reproduces (total_order_relative_error cell15_total_order) cell15_total_order_printed"
  by (simp_all add: reproduces_def first_order_relative_error_def
      total_order_relative_error_def relative_error_def np_subtract_def np_multiply_def
      np_absolute_def true_sobol_def stored_cells)

text \<open>
  The estimates stored by the three runs (base sample size 10000, seed 0) all lie within
  0.05 of the reference values. This is a statement about the stored figures only: the
  estimator that produced them is a library call and is not modelled.
\<close>

lemma stored_estimates_within_tolerance:
  "within_tolerance 0.05 cell7_first_order (true_sobol ! 0)"
  "within_tolerance 0.05 cell7_total_order (true_sobol ! 1)"
  "within_tolerance 0.05 cell12_first_order (true_sobol ! 0)"
  "within_tolerance 0.05 cell12_total_order (true_sobol ! 1)"
  "within_tolerance 0.05 cell15_first_order (true_sobol ! 0)"
  "within_tolerance 0.05 cell15_total_order (true_sobol ! 1)"
  by (simp_all add: within_tolerance_def true_sobol_def stored_cells)

subsection \<open>What the line labelled Relative error holds\<close>

text \<open>
  Claim C10. For every index the notebook prints, the quantity labelled
  \<^verbatim>\<open>Relative error\<close> is a hundred times the absolute difference between the estimated
  index and its analytical reference value, \<^verbatim>\<open>abs(estimate - true) * 100\<close>: an absolute
  error scaled to percent, not a difference divided by the true value.

  For estimates of the notebook's dimension the two printed arrays are computed without
  a shape error and hold, in place \<open>i\<close>, \<open>\<bar>estimate ! i - true ! i\<bar> * 100\<close>. They are not
  the difference divided by the true value: every non-zero reference lies strictly
  between zero and one, so wherever the estimate misses such a reference the printed
  figure is strictly smaller than \<open>\<bar>estimate - true\<bar> / \<bar>true\<bar> * 100\<close>.
\<close>

theorem relative_error_is_absolute_difference_times_100:
  assumes "length first_order = dimension" and "length total_order = dimension"
  shows "first_order_relative_error first_order =
           Inr (map2 (\<lambda>e t. \<bar>e - t\<bar> * 100) first_order (true_sobol ! 0))
       \<and> total_order_relative_error total_order =
           Inr (map2 (\<lambda>e t. \<bar>e - t\<bar> * 100) total_order (true_sobol ! 1))
       \<and> (\<forall>i<dimension.
             map2 (\<lambda>e t. \<bar>e - t\<bar> * 100) first_order (true_sobol ! 0) ! i
               = \<bar>first_order ! i - true_sobol ! 0 ! i\<bar> * 100
           \<and> map2 (\<lambda>e t. \<bar>e - t\<bar> * 100) total_order (true_sobol ! 1) ! i
               = \<bar>total_order ! i - true_sobol ! 1 ! i\<bar> * 100
           \<and> (first_order ! i \<noteq> true_sobol ! 0 ! i \<and> true_sobol ! 0 ! i \<noteq> 0 \<longrightarrow>
                \<bar>first_order ! i - true_sobol ! 0 ! i\<bar> * 100
                  < difference_over_true_value (first_order ! i) (true_sobol ! 0 ! i))
           \<and> (total_order ! i \<noteq> true_sobol ! 1 ! i \<longrightarrow>
                \<bar>total_order ! i - true_sobol ! 1 ! i\<bar> * 100
                  < difference_over_true_value (total_order ! i) (true_sobol ! 1 ! i)))"
proof -
  have len0: "length (true_sobol ! 0) = dimension"
    and len1: "length (true_sobol ! 1) = dimension"
    by (simp_all add: true_sobol_rows dimension_def)
  have first: "first_order_relative_error first_order =
      Inr (map2 (\<lambda>e t. \<bar>e - t\<bar> * 100) first_order (true_sobol ! 0))"
    unfolding first_order_relative_error_def
    by (rule relative_error_same_shape) (simp only: assms(1) len0)
  have total: "total_order_relative_error total_order =
      Inr (map2 (\<lambda>e t. \<bar>e - t\<bar> * 100) total_order (true_sobol ! 1))"
    unfolding total_order_relative_error_def
    by (rule relative_error_same_shape) (simp only: assms(2) len1)
  have each: "map2 (\<lambda>e t. \<bar>e - t\<bar> * 100) first_order (true_sobol ! 0) ! i
               = \<bar>first_order ! i - true_sobol ! 0 ! i\<bar> * 100
           \<and> map2 (\<lambda>e t. \<bar>e - t\<bar> * 100) total_order (true_sobol ! 1) ! i
               = \<bar>total_order ! i - true_sobol ! 1 ! i\<bar> * 100
           \<and> (first_order ! i \<noteq> true_sobol ! 0 ! i \<and> true_sobol ! 0 ! i \<noteq> 0 \<longrightarrow>
                \<bar>first_order ! i - true_sobol ! 0 ! i\<bar> * 100
                  < difference_over_true_value (first_order ! i) (true_sobol ! 0 ! i))
           \<and> (total_order ! i \<noteq> true_sobol ! 1 ! i \<longrightarrow>
                \<bar>total_order ! i - true_sobol ! 1 ! i\<bar> * 100
                  < difference_over_true_value (total_order ! i) (true_sobol ! 1 ! i))"
    if i: "i < dimension" for i
  proof -
    have a: "map2 (\<lambda>e t. \<bar>e - t\<bar> * 100) first_order (true_sobol ! 0) ! i
               = \<bar>first_order ! i - true_sobol ! 0 ! i\<bar> * 100"
      using i assms(1) len0 by simp
    have b: "map2 (\<lambda>e t. \<bar>e - t\<bar> * 100) total_order (true_sobol ! 1) ! i
               = \<bar>total_order ! i - true_sobol ! 1 ! i\<bar> * 100"
      using i assms(2) len1 by simp
    have c: "\<bar>first_order ! i - true_sobol ! 0 ! i\<bar> * 100
                  < difference_over_true_value (first_order ! i) (true_sobol ! 0 ! i)"
      if "first_order ! i \<noteq> true_sobol ! 0 ! i" and "true_sobol ! 0 ! i \<noteq> 0"
      using that true_sobol_first_range [OF i]
      by (intro scaled_difference_understates) simp_all
    have d: "\<bar>total_order ! i - true_sobol ! 1 ! i\<bar> * 100
                  < difference_over_true_value (total_order ! i) (true_sobol ! 1 ! i)"
      if "total_order ! i \<noteq> true_sobol ! 1 ! i"
      using that true_sobol_total_range [OF i]
      by (intro scaled_difference_understates) simp_all
    from a b c d show ?thesis by blast
  qed
  from first total each show ?thesis by blast
qed

text \<open>
  At the estimates stored in cell 7 the two lines are \<open>[1.1249, 1.8825, 0.669407]\<close> and
  \<open>[1.699, 1.4853, 1.2687]\<close>, the stored figures up to the rounding of the print; the
  first place of the first line and the last place of the second are below the
  difference divided by the true value.
\<close>

theorem relative_error_is_absolute_difference_times_100_witness:
  "length cell7_first_order = dimension \<and> length cell7_total_order = dimension
   \<and> first_order_relative_error cell7_first_order = Inr [1.1249, 1.8825, 0.669407]
   \<and> total_order_relative_error cell7_total_order = Inr [1.699, 1.4853, 1.2687]
   \<and> cell7_first_order ! 0 \<noteq> true_sobol ! 0 ! 0 \<and> true_sobol ! 0 ! 0 \<noteq> 0
   \<and> \<bar>cell7_first_order ! 0 - true_sobol ! 0 ! 0\<bar> * 100 = 1.1249
   \<and> 1.1249 < difference_over_true_value (cell7_first_order ! 0) (true_sobol ! 0 ! 0)
   \<and> cell7_total_order ! 2 \<noteq> true_sobol ! 1 ! 2
   \<and> \<bar>cell7_total_order ! 2 - true_sobol ! 1 ! 2\<bar> * 100 = 1.2687
   \<and> 1.2687 < difference_over_true_value (cell7_total_order ! 2) (true_sobol ! 1 ! 2)"
proof -
  have l: "length cell7_first_order = dimension" "length cell7_total_order = dimension"
    by (simp_all add: cell7_first_order_def cell7_total_order_def dimension_def)
  have i: "(0::nat) < dimension" "(2::nat) < dimension"
    by (simp_all add: dimension_def)
  note t = relative_error_is_absolute_difference_times_100 [OF l]
  have v: "cell7_first_order ! 0 = 0.302751" "true_sobol ! 0 ! 0 = 0.314"
    "cell7_total_order ! 2 = 0.256687" "true_sobol ! 1 ! 2 = 0.244"
    by (simp_all add: cell7_first_order_def cell7_total_order_def true_sobol_rows)
  have f: "first_order_relative_error cell7_first_order = Inr [1.1249, 1.8825, 0.669407]"
    using t by (simp add: cell7_first_order_def true_sobol_rows)
  have g: "total_order_relative_error cell7_total_order = Inr [1.699, 1.4853, 1.2687]"
    using t by (simp add: cell7_total_order_def true_sobol_rows)
  have n: "cell7_first_order ! 0 \<noteq> true_sobol ! 0 ! 0" "true_sobol ! 0 ! 0 \<noteq> 0"
    "cell7_total_order ! 2 \<noteq> true_sobol ! 1 ! 2"
    unfolding v by simp_all
  have e: "\<bar>cell7_first_order ! 0 - true_sobol ! 0 ! 0\<bar> * 100 = 1.1249"
    "\<bar>cell7_total_order ! 2 - true_sobol ! 1 ! 2\<bar> * 100 = 1.2687"
    unfolding v by simp_all
  have c: "1.1249 < difference_over_true_value (cell7_first_order ! 0) (true_sobol ! 0 ! 0)"
    using t i(1) n e by metis
  have d: "1.2687 < difference_over_true_value (cell7_total_order ! 2) (true_sobol ! 1 ! 2)"
    using t i(2) n e by metis
  from l f g n e c d show ?thesis by blast
qed

end
